theory Spec2Isabelle
  imports Complex_Main "HOL-Library.AList"
begin

section \<open>Joint federal tax estimator (tax\_tool.py)\<close>

text \<open>
  The development embeds the computational functions of \<^verbatim>\<open>tax_tool.py\<close>:
  \<^verbatim>\<open>load_inputs\<close>, \<^verbatim>\<open>annualize\<close>, \<^verbatim>\<open>compute_taxable_income\<close>,
  \<^verbatim>\<open>compute_federal_tax\<close> and \<^verbatim>\<open>compute_results\<close>.

  Numbers. A Python \<^verbatim>\<open>float\<close> is modelled as a \<^typ>\<open>real\<close>: every arithmetic operation
  is exact. Rounding to binary64, overflow and NaN are not part of the model, so each
  theorem below is a statement about the program's arithmetic carried out exactly. The one
  non-finite float the program itself writes down, \<^verbatim>\<open>float("inf")\<close> as the upper limit
  of the last bracket, is kept: a bracket limit is a \<open>bound\<close>, finite or infinite. A
  Python \<^verbatim>\<open>int\<close> is an \<^typ>\<open>int\<close>.

  Errors. Every \<^verbatim>\<open>raise\<close> of the source, and every exception one of its operations can
  throw (a missing dictionary key, a division by zero, a method call on \<^verbatim>\<open>None\<close>), is
  a value of the type \<open>error\<close>; a function that can fail returns \<open>error + 'a\<close>.
\<close>

subsection \<open>Data model\<close>

record PaystubInput =
  spouse :: string
  pay_frequency :: string
  ytd_pay_periods :: int
  ytd_gross :: real
  ytd_pretax_deductions :: real
  ytd_posttax_deductions :: real
  ytd_federal_withheld :: real

text \<open>
  The fields of \<^verbatim>\<open>TaxResult\<close>; its \<^verbatim>\<open>spouse\<close> field is named \<open>result_spouse\<close>, since
  a record field is a constant and \<open>spouse\<close> is the field of \<open>PaystubInput\<close>.
\<close>

record TaxResult =
  result_spouse :: string
  annualized_taxable_income :: real
  annualized_gross :: real
  annualized_pretax :: real
  total_tax_share :: real
  target_withholding_per_period :: real
  target_withholding_rate :: real
  remaining_periods :: int

definition FREQUENCY_PERIODS :: "string \<rightharpoonup> int" where
  "FREQUENCY_PERIODS =
     [''weekly'' \<mapsto> 52, ''biweekly'' \<mapsto> 26, ''semi-monthly'' \<mapsto> 24, ''monthly'' \<mapsto> 12]"

text \<open>An upper limit of a bracket: a finite amount, or \<^verbatim>\<open>float("inf")\<close>.\<close>

datatype bound = Fin real | PInf

record FederalTaxProfile =
  year :: int
  standard_deduction_mfj :: real
  brackets_mfj :: "(bound \<times> real) list"

definition profile_2024 :: FederalTaxProfile where
  "profile_2024 =
     \<lparr>year = 2024,
      standard_deduction_mfj = 29200,
      brackets_mfj =
        [(Fin 22000, 10 / 100),
         (Fin 89450, 12 / 100),
         (Fin 190750, 22 / 100),
         (Fin 364200, 24 / 100),
         (Fin 462500, 32 / 100),
         (Fin 693750, 35 / 100),
         (PInf, 37 / 100)]\<rparr>"

definition TAX_PROFILES :: "int \<rightharpoonup> FederalTaxProfile" where
  "TAX_PROFILES = [2024 \<mapsto> profile_2024]"

definition TEMPLATE_HEADERS :: "string list" where
  "TEMPLATE_HEADERS =
     [''spouse'', ''pay_frequency'', ''ytd_pay_periods'', ''ytd_gross'',
      ''ytd_pretax_deductions'', ''ytd_posttax_deductions'', ''ytd_federal_withheld'']"

text \<open>
  The exceptions of the program. The four \<^verbatim>\<open>ValueError\<close>s the source raises itself are
  told apart by their message: \<open>MissingColumns\<close> (with the missing headers),
  \<open>UnsupportedFrequency\<close> (with the frequency and the spouse), \<open>RowCount\<close>
  ("Provide exactly two spouse rows in the CSV.") and \<open>PeriodsNotPositive\<close>
  ("ytd\_pay\_periods must be greater than zero."). \<open>ParseError\<close> is the \<^verbatim>\<open>ValueError\<close> of
  \<^verbatim>\<open>int()\<close> or \<^verbatim>\<open>float()\<close> on a malformed string, \<open>NoneValue\<close> the
  \<^verbatim>\<open>AttributeError\<close> or \<^verbatim>\<open>TypeError\<close> of an operation on \<^verbatim>\<open>None\<close>.
  \<open>NonFinite\<close> is not an exception: it marks a float result that is infinite or NaN,
  which a real number cannot represent (see \<open>bracket_walk\<close>).
\<close>

datatype error =
    MissingColumns "string list"
  | UnsupportedFrequency string string
  | RowCount
  | PeriodsNotPositive
  | ParseError
  | NoneValue
  | KeyError string
  | ZeroDivisionError
  | OverflowError
  | NonFinite

subsection \<open>Arithmetic that can fail\<close>

text \<open>Python's \<^verbatim>\<open>/\<close> raises \<^verbatim>\<open>ZeroDivisionError\<close> on a zero divisor, also on floats.\<close>

definition py_div :: "real \<Rightarrow> real \<Rightarrow> error + real" where
  "py_div a b = (if b = 0 then Inl ZeroDivisionError else Inr (a / b))"

text \<open>
  \<^verbatim>\<open>upper_limit - lower_limit\<close> on bracket limits. With an infinite \<^verbatim>\<open>lower_limit\<close> the
  float result is \<^verbatim>\<open>-inf\<close> or NaN: \<open>None\<close>.
\<close>

fun bound_sub :: "bound \<Rightarrow> bound \<Rightarrow> bound option" where
  "bound_sub (Fin u) (Fin l) = Some (Fin (u - l))"
| "bound_sub PInf (Fin l) = Some PInf"
| "bound_sub u PInf = None"

text \<open>\<^verbatim>\<open>min(width, taxable_income)\<close> for a width that may be infinite.\<close>

fun bound_min :: "bound \<Rightarrow> real \<Rightarrow> real" where
  "bound_min (Fin w) t = min w t"
| "bound_min PInf t = t"

subsection \<open>annualize\<close>

text \<open>
  \<^verbatim>\<open>
  def annualize(amount, ytd_periods, periods_per_year):
      if ytd_periods <= 0:
          raise ValueError("ytd_pay_periods must be greater than zero.")
      return amount / ytd_periods * periods_per_year
  \<close>
\<close>

definition annualize :: "real \<Rightarrow> int \<Rightarrow> int \<Rightarrow> error + real" where
  "annualize amount ytd_periods periods_per_year =
     (if ytd_periods \<le> 0 then Inl PeriodsNotPositive
      else case py_div amount (of_int ytd_periods) of
             Inl e \<Rightarrow> Inl e
           | Inr q \<Rightarrow> Inr (q * of_int periods_per_year))"

subsection \<open>compute\_federal\_tax\<close>

text \<open>
  \<^verbatim>\<open>
  def compute_federal_tax(taxable_income, profile):
      taxable_income = max(0.0, taxable_income - profile.standard_deduction_mfj)
      tax = 0.0
      lower_limit = 0.0
      for upper_limit, rate in profile.brackets_mfj:
          if taxable_income <= 0:
              break
          taxable_at_rate = min(upper_limit - lower_limit, taxable_income)
          tax += taxable_at_rate * rate
          taxable_income -= taxable_at_rate
          lower_limit = upper_limit
      return tax
  \<close>
  \<open>bracket_walk\<close> is the loop, on the loop's variables and the brackets still to visit.
  Its result is \<open>None\<close> where the float computed is not finite: the width of a bracket
  that follows an infinite limit.
\<close>

fun bracket_walk :: "real \<Rightarrow> real \<Rightarrow> bound \<Rightarrow> (bound \<times> real) list \<Rightarrow> real option" where
  "bracket_walk taxable_income tax lower_limit [] = Some tax"
| "bracket_walk taxable_income tax lower_limit ((upper_limit, rate) # rest) =
     (if taxable_income \<le> 0 then Some tax
      else case bound_sub upper_limit lower_limit of
             None \<Rightarrow> None
           | Some width \<Rightarrow>
               bracket_walk (taxable_income - bound_min width taxable_income)
                 (tax + bound_min width taxable_income * rate) upper_limit rest)"

definition compute_federal_tax :: "real \<Rightarrow> FederalTaxProfile \<Rightarrow> real option" where
  "compute_federal_tax taxable_income profile =
     bracket_walk (max 0 (taxable_income - standard_deduction_mfj profile)) 0 (Fin 0)
       (brackets_mfj profile)"

text \<open>
  The same loop with the early exit removed, as the specification describes it
  ("the loop is idempotent if it does not short-circuit"): every bracket is visited.
\<close>

fun bracket_walk_no_break ::
  "real \<Rightarrow> real \<Rightarrow> bound \<Rightarrow> (bound \<times> real) list \<Rightarrow> real option" where
  "bracket_walk_no_break taxable_income tax lower_limit [] = Some tax"
| "bracket_walk_no_break taxable_income tax lower_limit ((upper_limit, rate) # rest) =
     (case bound_sub upper_limit lower_limit of
        None \<Rightarrow> None
      | Some width \<Rightarrow>
          bracket_walk_no_break (taxable_income - bound_min width taxable_income)
            (tax + bound_min width taxable_income * rate) upper_limit rest)"

definition compute_federal_tax_no_break :: "real \<Rightarrow> FederalTaxProfile \<Rightarrow> real option" where
  "compute_federal_tax_no_break taxable_income profile =
     bracket_walk_no_break (max 0 (taxable_income - standard_deduction_mfj profile)) 0 (Fin 0)
       (brackets_mfj profile)"

subsection \<open>compute\_taxable\_income\<close>

text \<open>
  \<^verbatim>\<open>
  def compute_taxable_income(inputs):
      taxable = {}
      for entry in inputs:
          periods_per_year = FREQUENCY_PERIODS[entry.pay_frequency]
          annual_gross = annualize(entry.ytd_gross, entry.ytd_pay_periods, periods_per_year)
          annual_pretax = annualize(
              entry.ytd_pretax_deductions, entry.ytd_pay_periods, periods_per_year)
          taxable_income = max(0.0, annual_gross - annual_pretax)
          taxable[entry.spouse] = taxable_income
      return taxable
  \<close>
  The dictionary is an association list in insertion order; \<^verbatim>\<open>taxable[k] = v\<close> is
  \<open>AList.update\<close>, which replaces the value of a key already present, in place, and
  appends a new key. \<open>entry_taxable_income\<close> is the body of the loop up to the store.
\<close>

definition entry_taxable_income :: "PaystubInput \<Rightarrow> error + real" where
  "entry_taxable_income entry =
     (case FREQUENCY_PERIODS (pay_frequency entry) of
        None \<Rightarrow> Inl (KeyError (pay_frequency entry))
      | Some periods_per_year \<Rightarrow>
     (case annualize (ytd_gross entry) (ytd_pay_periods entry) periods_per_year of
        Inl e \<Rightarrow> Inl e
      | Inr annual_gross \<Rightarrow>
     (case annualize (ytd_pretax_deductions entry) (ytd_pay_periods entry) periods_per_year of
        Inl e \<Rightarrow> Inl e
      | Inr annual_pretax \<Rightarrow> Inr (max 0 (annual_gross - annual_pretax)))))"

fun compute_taxable_income_loop ::
  "(string \<times> real) list \<Rightarrow> PaystubInput list \<Rightarrow> error + (string \<times> real) list" where
  "compute_taxable_income_loop taxable [] = Inr taxable"
| "compute_taxable_income_loop taxable (entry # rest) =
     (case entry_taxable_income entry of
        Inl e \<Rightarrow> Inl e
      | Inr taxable_income \<Rightarrow>
          compute_taxable_income_loop (AList.update (spouse entry) taxable_income taxable) rest)"

definition compute_taxable_income :: "PaystubInput list \<Rightarrow> error + (string \<times> real) list" where
  "compute_taxable_income inputs = compute_taxable_income_loop [] inputs"

subsection \<open>compute\_results\<close>

text \<open>\<^verbatim>\<open>sum(values)\<close>: from 0, left to right.\<close>

definition py_sum :: "real list \<Rightarrow> real" where
  "py_sum xs = foldl (+) 0 xs"

text \<open>
  \<^verbatim>\<open>
  def compute_results(inputs, profile):
      taxable_by_spouse = compute_taxable_income(inputs)
      total_taxable = sum(taxable_by_spouse.values())
      total_tax = compute_federal_tax(total_taxable, profile)

      results = []
      for entry in inputs:
          periods_per_year = FREQUENCY_PERIODS[entry.pay_frequency]
          annual_gross = annualize(entry.ytd_gross, entry.ytd_pay_periods, periods_per_year)
          annual_pretax = annualize(
              entry.ytd_pretax_deductions, entry.ytd_pay_periods, periods_per_year)
          spouse_taxable = taxable_by_spouse[entry.spouse]
          share = spouse_taxable / total_taxable if total_taxable > 0 else 0.0
          target_tax = total_tax * share
          remaining_periods = max(0, periods_per_year - entry.ytd_pay_periods)
          remaining_tax = target_tax - entry.ytd_federal_withheld
          if remaining_periods > 0:
              per_period_target = remaining_tax / remaining_periods
          else:
              per_period_target = 0.0
          gross_per_period = annual_gross / periods_per_year if periods_per_year else 0.0
          withholding_rate = per_period_target / gross_per_period if gross_per_period else 0.0
          results.append(TaxResult(...))
      return results
  \<close>
  \<open>entry_result\<close> is the body of the loop: the \<^verbatim>\<open>TaxResult\<close> of one entry, or the
  exception one of its operations raises. The local \<^verbatim>\<open>remaining_periods\<close> is written
  \<open>remaining\<close>, the name being that of the result's field.
\<close>

definition entry_result ::
  "(string \<times> real) list \<Rightarrow> real \<Rightarrow> real \<Rightarrow> PaystubInput \<Rightarrow> error + TaxResult" where
  "entry_result taxable_by_spouse total_taxable total_tax entry =
     (case FREQUENCY_PERIODS (pay_frequency entry) of
        None \<Rightarrow> Inl (KeyError (pay_frequency entry))
      | Some periods_per_year \<Rightarrow>
     (case annualize (ytd_gross entry) (ytd_pay_periods entry) periods_per_year of
        Inl e \<Rightarrow> Inl e
      | Inr annual_gross \<Rightarrow>
     (case annualize (ytd_pretax_deductions entry) (ytd_pay_periods entry) periods_per_year of
        Inl e \<Rightarrow> Inl e
      | Inr annual_pretax \<Rightarrow>
     (case map_of taxable_by_spouse (spouse entry) of
        None \<Rightarrow> Inl (KeyError (spouse entry))
      | Some spouse_taxable \<Rightarrow>
     (case (if total_taxable > 0 then py_div spouse_taxable total_taxable else Inr 0) of
        Inl e \<Rightarrow> Inl e
      | Inr share \<Rightarrow>
     (let target_tax = total_tax * share;
          remaining = max 0 (periods_per_year - ytd_pay_periods entry);
          remaining_tax = target_tax - ytd_federal_withheld entry
      in
     (case (if remaining > 0 then py_div remaining_tax (of_int remaining) else Inr 0) of
        Inl e \<Rightarrow> Inl e
      | Inr per_period_target \<Rightarrow>
     (case (if periods_per_year \<noteq> 0 then py_div annual_gross (of_int periods_per_year)
            else Inr 0) of
        Inl e \<Rightarrow> Inl e
      | Inr gross_per_period \<Rightarrow>
     (case (if gross_per_period \<noteq> 0 then py_div per_period_target gross_per_period
            else Inr 0) of
        Inl e \<Rightarrow> Inl e
      | Inr withholding_rate \<Rightarrow>
          Inr \<lparr>result_spouse = spouse entry,
               annualized_taxable_income = spouse_taxable,
               annualized_gross = annual_gross,
               annualized_pretax = annual_pretax,
               total_tax_share = target_tax,
               target_withholding_per_period = per_period_target,
               target_withholding_rate = withholding_rate,
               remaining_periods = remaining\<rparr>)))))))))"

fun compute_results_loop ::
  "(string \<times> real) list \<Rightarrow> real \<Rightarrow> real \<Rightarrow> TaxResult list \<Rightarrow> PaystubInput list
     \<Rightarrow> error + TaxResult list" where
  "compute_results_loop taxable_by_spouse total_taxable total_tax results [] = Inr results"
| "compute_results_loop taxable_by_spouse total_taxable total_tax results (entry # rest) =
     (case entry_result taxable_by_spouse total_taxable total_tax entry of
        Inl e \<Rightarrow> Inl e
      | Inr r \<Rightarrow>
          compute_results_loop taxable_by_spouse total_taxable total_tax (results @ [r]) rest)"

definition compute_results ::
  "PaystubInput list \<Rightarrow> FederalTaxProfile \<Rightarrow> error + TaxResult list" where
  "compute_results inputs profile =
     (case compute_taxable_income inputs of
        Inl e \<Rightarrow> Inl e
      | Inr taxable_by_spouse \<Rightarrow>
          (let total_taxable = py_sum (map snd taxable_by_spouse) in
           case compute_federal_tax total_taxable profile of
             None \<Rightarrow> Inl NonFinite
           | Some total_tax \<Rightarrow>
               compute_results_loop taxable_by_spouse total_taxable total_tax [] inputs))"

subsection \<open>load\_inputs\<close>

text \<open>
  \<^verbatim>\<open>csv.DictReader\<close> is outside the model; what \<open>load_inputs\<close> reads from it is:
  \<^verbatim>\<open>reader.fieldnames\<close>, the header row (\<^verbatim>\<open>None\<close> for an empty file), and the rows, each
  a dictionary with every field name as a key, whose value is the cell's string, or
  \<^verbatim>\<open>None\<close> for a row shorter than the header. A row is a map from field names to
  strings, where \<open>None\<close> is that \<^verbatim>\<open>None\<close>.
\<close>

record csv_reader =
  fieldnames :: "string list option"
  rows :: "(string \<rightharpoonup> string) list"

text \<open>
  \<^verbatim>\<open>str.strip()\<close> and \<^verbatim>\<open>str.lower()\<close> on ASCII: the whitespace characters are the codes
  9 to 13 and 28 to 32, the letters lowered are A to Z. (Python also strips and lowers
  characters beyond ASCII.)
\<close>

definition isspace :: "char \<Rightarrow> bool" where
  "isspace c = ((9 \<le> (of_char c :: nat) \<and> (of_char c :: nat) \<le> 13) \<or>
                (28 \<le> (of_char c :: nat) \<and> (of_char c :: nat) \<le> 32) \<or>
                (of_char c :: nat) = 133 \<or> (of_char c :: nat) = 160)"

definition str_strip :: "string \<Rightarrow> string" where
  "str_strip s = rev (dropWhile isspace (rev (dropWhile isspace s)))"

definition lower_char :: "char \<Rightarrow> char" where
  "lower_char c =
     (if (65 \<le> (of_char c :: nat) \<and> (of_char c :: nat) \<le> 90) \<or>
         (192 \<le> (of_char c :: nat) \<and> (of_char c :: nat) \<le> 222 \<and>
          (of_char c :: nat) \<noteq> 215)
      then char_of ((of_char c :: nat) + 32) else c)"

definition str_lower :: "string \<Rightarrow> string" where
  "str_lower s = map lower_char s"

text \<open>
  \<^verbatim>\<open>int(row[k])\<close> and \<^verbatim>\<open>float(row[k])\<close>. The builtin parsers are parameters: a
  function from strings that returns \<open>None\<close> where the builtin raises \<^verbatim>\<open>ValueError\<close>.
\<close>

definition cell :: "(string \<Rightarrow> 'a option) \<Rightarrow> (string \<rightharpoonup> string) \<Rightarrow> string \<Rightarrow> error + 'a" where
  "cell parse row k =
     (case row k of
        None \<Rightarrow> Inl NoneValue
      | Some s \<Rightarrow> (case parse s of None \<Rightarrow> Inl ParseError | Some v \<Rightarrow> Inr v))"

text \<open>The constructor call of \<^verbatim>\<open>PaystubInput\<close>: its arguments are evaluated in order.\<close>

definition make_input ::
  "(string \<Rightarrow> int option) \<Rightarrow> (string \<Rightarrow> real option) \<Rightarrow> string \<Rightarrow> string
     \<Rightarrow> (string \<rightharpoonup> string) \<Rightarrow> error + PaystubInput" where
  "make_input py_int py_float sp freq row =
     (case cell py_int row ''ytd_pay_periods'' of Inl e \<Rightarrow> Inl e | Inr periods \<Rightarrow>
     (case cell py_float row ''ytd_gross'' of Inl e \<Rightarrow> Inl e | Inr gross \<Rightarrow>
     (case cell py_float row ''ytd_pretax_deductions'' of Inl e \<Rightarrow> Inl e | Inr pretax \<Rightarrow>
     (case cell py_float row ''ytd_posttax_deductions'' of Inl e \<Rightarrow> Inl e | Inr posttax \<Rightarrow>
     (case cell py_float row ''ytd_federal_withheld'' of Inl e \<Rightarrow> Inl e | Inr withheld \<Rightarrow>
        Inr \<lparr>spouse = sp,
             pay_frequency = freq,
             ytd_pay_periods = periods,
             ytd_gross = gross,
             ytd_pretax_deductions = pretax,
             ytd_posttax_deductions = posttax,
             ytd_federal_withheld = withheld\<rparr>)))))"

text \<open>
  \<^verbatim>\<open>
  def load_inputs(path):
      with path.open(newline="", encoding="utf-8") as handle:
          reader = csv.DictReader(handle)
          missing = [h for h in TEMPLATE_HEADERS if h not in reader.fieldnames]
          if missing:
              raise ValueError(f"Missing columns in CSV: {', '.join(missing)}")

          inputs = []
          for row in reader:
              spouse = row["spouse"].strip()
              if not spouse:
                  continue
              pay_frequency = row["pay_frequency"].strip().lower()
              if pay_frequency not in FREQUENCY_PERIODS:
                  raise ValueError(f"Unsupported pay_frequency ...")
              inputs.append(PaystubInput(spouse=spouse, pay_frequency=pay_frequency,
                  ytd_pay_periods=int(row["ytd_pay_periods"]), ...))

      if len(inputs) != 2:
          raise ValueError("Provide exactly two spouse rows in the CSV.")
      return inputs
  \<close>
  \<open>load_row\<close> is the body of the loop: \<open>Inr None\<close> is \<^verbatim>\<open>continue\<close>, \<open>Inr (Some entry)\<close>
  the entry appended.
\<close>

definition load_row ::
  "(string \<Rightarrow> int option) \<Rightarrow> (string \<Rightarrow> real option) \<Rightarrow> (string \<rightharpoonup> string)
     \<Rightarrow> error + PaystubInput option" where
  "load_row py_int py_float row =
     (case row ''spouse'' of
        None \<Rightarrow> Inl NoneValue
      | Some s \<Rightarrow>
          if str_strip s = [] then Inr None
          else (case row ''pay_frequency'' of
                  None \<Rightarrow> Inl NoneValue
                | Some f \<Rightarrow>
                    if FREQUENCY_PERIODS (str_lower (str_strip f)) = None
                    then Inl (UnsupportedFrequency (str_lower (str_strip f)) (str_strip s))
                    else (case make_input py_int py_float (str_strip s)
                                 (str_lower (str_strip f)) row of
                            Inl e \<Rightarrow> Inl e
                          | Inr entry \<Rightarrow> Inr (Some entry))))"

fun load_rows ::
  "(string \<Rightarrow> int option) \<Rightarrow> (string \<Rightarrow> real option) \<Rightarrow> PaystubInput list
     \<Rightarrow> (string \<rightharpoonup> string) list \<Rightarrow> error + PaystubInput list" where
  "load_rows py_int py_float inputs [] = Inr inputs"
| "load_rows py_int py_float inputs (row # rest) =
     (case load_row py_int py_float row of
        Inl e \<Rightarrow> Inl e
      | Inr None \<Rightarrow> load_rows py_int py_float inputs rest
      | Inr (Some entry) \<Rightarrow> load_rows py_int py_float (inputs @ [entry]) rest)"

definition load_inputs ::
  "(string \<Rightarrow> int option) \<Rightarrow> (string \<Rightarrow> real option) \<Rightarrow> csv_reader
     \<Rightarrow> error + PaystubInput list" where
  "load_inputs py_int py_float reader =
     (case fieldnames reader of
        None \<Rightarrow> Inl NoneValue
      | Some names \<Rightarrow>
          if filter (\<lambda>h. h \<notin> set names) TEMPLATE_HEADERS \<noteq> []
          then Inl (MissingColumns (filter (\<lambda>h. h \<notin> set names) TEMPLATE_HEADERS))
          else (case load_rows py_int py_float [] (rows reader) of
                  Inl e \<Rightarrow> Inl e
                | Inr inputs \<Rightarrow> if length inputs \<noteq> 2 then Inl RowCount else Inr inputs))"

text \<open>
  A row "whose spouse field is empty or whitespace-only": the cell is a string, all of
  whose characters are whitespace.
\<close>

definition blank_spouse :: "(string \<rightharpoonup> string) \<Rightarrow> bool" where
  "blank_spouse row = (case row ''spouse'' of None \<Rightarrow> False | Some s \<Rightarrow> list_all isspace s)"

subsection \<open>Predicates on schedules\<close>

text \<open>
  The order on bracket limits, "strictly increasing upper bounds" and "ending at
  infinity" as the specification words them.
\<close>

fun bound_le :: "bound \<Rightarrow> bound \<Rightarrow> bool" where
  "bound_le (Fin a) (Fin b) = (a \<le> b)"
| "bound_le a PInf = True"
| "bound_le PInf (Fin b) = False"

fun bound_less :: "bound \<Rightarrow> bound \<Rightarrow> bool" where
  "bound_less (Fin a) (Fin b) = (a < b)"
| "bound_less (Fin a) PInf = True"
| "bound_less PInf b = False"

fun strictly_increasing :: "bound list \<Rightarrow> bool" where
  "strictly_increasing [] = True"
| "strictly_increasing [b] = True"
| "strictly_increasing (a # b # bs) = (bound_less a b \<and> strictly_increasing (b # bs))"

definition ends_at_infinity :: "bound list \<Rightarrow> bool" where
  "ends_at_infinity bs = (bs \<noteq> [] \<and> last bs = PInf)"

text \<open>
  The invariant of the walk on such a schedule: the current lower limit is finite and at
  most the next upper limit, and so on along the brackets still to visit.
\<close>

fun ascending :: "bound \<Rightarrow> (bound \<times> real) list \<Rightarrow> bool" where
  "ascending l [] = True"
| "ascending l ((u, r) # rest) = (l \<noteq> PInf \<and> bound_le l u \<and> ascending u rest)"

subsection \<open>Example inputs\<close>

text \<open>
  Records used to instantiate the theorems below: a weekly earner with more periods paid
  than a year has, a monthly earner, a second monthly earner who carries the first one's
  identifier, and a record without income.
\<close>

definition paystub_a :: PaystubInput where
  "paystub_a =
     \<lparr>spouse = ''spouse_a'', pay_frequency = ''weekly'', ytd_pay_periods = 60,
      ytd_gross = 60000, ytd_pretax_deductions = 0, ytd_posttax_deductions = 0,
      ytd_federal_withheld = 7000\<rparr>"

definition paystub_b :: PaystubInput where
  "paystub_b =
     \<lparr>spouse = ''spouse_b'', pay_frequency = ''monthly'', ytd_pay_periods = 4,
      ytd_gross = 40000, ytd_pretax_deductions = 4000, ytd_posttax_deductions = 0,
      ytd_federal_withheld = 5000\<rparr>"

definition paystub_same_name :: PaystubInput where
  "paystub_same_name =
     \<lparr>spouse = ''spouse_a'', pay_frequency = ''monthly'', ytd_pay_periods = 4,
      ytd_gross = 20000, ytd_pretax_deductions = 0, ytd_posttax_deductions = 0,
      ytd_federal_withheld = 0\<rparr>"

definition paystub_idle :: "string \<Rightarrow> PaystubInput" where
  "paystub_idle name =
     \<lparr>spouse = name, pay_frequency = ''biweekly'', ytd_pay_periods = 2,
      ytd_gross = 0, ytd_pretax_deductions = 0, ytd_posttax_deductions = 0,
      ytd_federal_withheld = 0\<rparr>"

text \<open>
  Three rows of a CSV file: two spouses, and a row whose spouse cell is two spaces and
  whose other cells would each raise an error. \<open>example_int\<close> and \<open>example_float\<close>
  stand for \<^verbatim>\<open>int()\<close> and \<^verbatim>\<open>float()\<close> on the strings of these rows.
\<close>

definition example_int :: "string \<Rightarrow> int option" where
  "example_int s = (if s = ''10'' then Some 10 else if s = ''4'' then Some 4 else None)"

definition example_float :: "string \<Rightarrow> real option" where
  "example_float s =
     (if s = ''0'' then Some 0 else if s = ''2000'' then Some 2000
      else if s = ''25000'' then Some 25000 else if s = ''40000'' then Some 40000 else None)"

definition csv_row_a :: "string \<rightharpoonup> string" where
  "csv_row_a =
     [''spouse'' \<mapsto> ''spouse_a'', ''pay_frequency'' \<mapsto> '' Biweekly'',
      ''ytd_pay_periods'' \<mapsto> ''10'', ''ytd_gross'' \<mapsto> ''25000'',
      ''ytd_pretax_deductions'' \<mapsto> ''2000'', ''ytd_posttax_deductions'' \<mapsto> ''0'',
      ''ytd_federal_withheld'' \<mapsto> ''2000'']"

definition csv_row_b :: "string \<rightharpoonup> string" where
  "csv_row_b =
     [''spouse'' \<mapsto> ''spouse_b '', ''pay_frequency'' \<mapsto> ''monthly'',
      ''ytd_pay_periods'' \<mapsto> ''4'', ''ytd_gross'' \<mapsto> ''40000'',
      ''ytd_pretax_deductions'' \<mapsto> ''0'', ''ytd_posttax_deductions'' \<mapsto> ''0'',
      ''ytd_federal_withheld'' \<mapsto> ''2000'']"

definition csv_row_blank :: "string \<rightharpoonup> string" where
  "csv_row_blank =
     [''spouse'' \<mapsto> ''  '', ''pay_frequency'' \<mapsto> ''daily'',
      ''ytd_pay_periods'' \<mapsto> ''ten'', ''ytd_gross'' \<mapsto> [],
      ''ytd_pretax_deductions'' \<mapsto> [], ''ytd_posttax_deductions'' \<mapsto> [],
      ''ytd_federal_withheld'' \<mapsto> []]"

section \<open>Properties\<close>

subsection \<open>The 2024 schedule at a concrete income\<close>

text \<open>
  C1 (as stated, refuted). With the 2024 schedule, \<open>compute_federal_tax\<close> applied to a
  joint taxable income of 100,000 does not return 12,615: the function first subtracts the
  standard deduction of 29,200, walks the brackets on 70,800 and returns 8,056.
\<close>

theorem compute_federal_tax_2024_100000_counterexample:
  "compute_federal_tax 100000 profile_2024 = Some 8056 \<and>
   compute_federal_tax 100000 profile_2024 \<noteq> Some 12615"
  by (simp add: compute_federal_tax_def profile_2024_def)

text \<open>
  C1 (amended). With the 2024 schedule (standard deduction 29,200), \<open>compute_federal_tax\<close>
  applied to a joint taxable income of 129,200, that is 100,000 once the standard deduction
  is subtracted, returns exactly 12,615, by the bracket walk on 100,000:
  22,000 at 10\% = 2,200, the next 67,450 at 12\% = 8,094, and the remaining 10,550 at
  22\% = 2,321. Each line of the theorem is one state of the loop.
\<close>

theorem compute_federal_tax_2024_bracket_walk:
  "compute_federal_tax 129200 profile_2024
     = bracket_walk 100000 0 (Fin 0) (brackets_mfj profile_2024) \<and>
   bracket_walk 100000 0 (Fin 0) (brackets_mfj profile_2024)
     = bracket_walk (100000 - 22000) (22000 * (10 / 100)) (Fin 22000)
         (drop 1 (brackets_mfj profile_2024)) \<and>
   bracket_walk 78000 2200 (Fin 22000) (drop 1 (brackets_mfj profile_2024))
     = bracket_walk (78000 - 67450) (2200 + 67450 * (12 / 100)) (Fin 89450)
         (drop 2 (brackets_mfj profile_2024)) \<and>
   bracket_walk 10550 (2200 + 8094) (Fin 89450) (drop 2 (brackets_mfj profile_2024))
     = bracket_walk (10550 - 10550) (2200 + 8094 + 10550 * (22 / 100)) (Fin 190750)
         (drop 3 (brackets_mfj profile_2024)) \<and>
   bracket_walk 0 (2200 + 8094 + 2321) (Fin 190750) (drop 3 (brackets_mfj profile_2024))
     = Some 12615 \<and>
   compute_federal_tax 129200 profile_2024 = Some 12615"
  by (simp add: compute_federal_tax_def profile_2024_def)

subsection \<open>annualize\<close>



subsection \<open>The bracket walk\<close>

text \<open>The loop leaves at once when nothing is left to tax.\<close>

lemma bracket_walk_stop: "taxable_income \<le> 0 \<Longrightarrow> bracket_walk taxable_income tax l bs = Some tax"
  by (cases bs) auto

text \<open>
  The walk never computes a width from an infinite lower limit: the bracket whose upper limit
  is infinite takes all that is left, and the loop leaves at the next bracket. So
  \<open>compute_federal_tax\<close> returns a (finite) tax for every income and every profile.
\<close>

lemma bracket_walk_total:
  "(l = PInf \<longrightarrow> ti \<le> 0) \<Longrightarrow> \<exists>a. bracket_walk ti tax l bs = Some a"
proof (induction bs arbitrary: ti tax l)
  case Nil
  then show ?case by simp
next
  case (Cons b bs)
  obtain u r where b: "b = (u, r)" by (cases b)
  show ?case
  proof (cases "ti \<le> 0")
    case True
    then show ?thesis by (simp add: b)
  next
    case False
    with Cons.prems obtain x where l: "l = Fin x" by (cases l) auto
    show ?thesis
    proof (cases u)
      case (Fin y)
      with False l b Cons.IH [of u] show ?thesis by simp
    next
      case PInf
      with False l b Cons.IH [of u "ti - ti"] show ?thesis by simp
    qed
  qed
qed

lemma compute_federal_tax_total: "\<exists>tax. compute_federal_tax t p = Some tax"
  unfolding compute_federal_tax_def by (rule bracket_walk_total) simp

lemma ascending_strictly_increasing:
  "strictly_increasing (map fst bs) \<Longrightarrow> bs \<noteq> [] \<Longrightarrow> l \<noteq> PInf \<Longrightarrow> bound_le l (fst (hd bs)) \<Longrightarrow> ascending l bs"
proof (induction bs arbitrary: l)
  case Nil
  then show ?case by simp
next
  case (Cons b bs)
  obtain u r where b: "b = (u, r)" by (cases b)
  show ?case
  proof (cases bs)
    case Nil
    with Cons.prems b show ?thesis by simp
  next
    case (Cons c cs)
    obtain u' r' where c: "c = (u', r')" by (cases c)
    from Cons.prems(1) b Cons c have lt: "bound_less u u'" and si: "strictly_increasing (map fst bs)"
      by simp_all
    from lt have "u \<noteq> PInf" by (cases u) auto
    moreover from lt have "bound_le u (fst (hd bs))" using Cons c by (cases u; cases u') auto
    ultimately have "ascending u bs" using Cons.IH [OF si] Cons by simp
    with Cons.prems b show ?thesis by simp
  qed
qed

lemma bracket_walk_no_break_eq:
  "ascending l bs \<Longrightarrow> 0 \<le> ti \<Longrightarrow> bracket_walk_no_break ti tax l bs = bracket_walk ti tax l bs"
proof (induction bs arbitrary: ti tax l)
  case Nil
  then show ?case by simp
next
  case (Cons b bs)
  obtain u r where b: "b = (u, r)" by (cases b)
  from Cons.prems b obtain x where l: "l = Fin x" and le: "bound_le l u" and asc: "ascending u bs"
    by (cases l) auto
  obtain w where w: "bound_sub u l = Some w" and m0: "0 \<le> bound_min w ti" and mle: "bound_min w ti \<le> ti"
    using l le Cons.prems(2) by (cases u) auto
  have step: "bracket_walk_no_break ti tax l (b # bs)
      = bracket_walk (ti - bound_min w ti) (tax + bound_min w ti * r) u bs"
    using w b Cons.IH [OF asc, of "ti - bound_min w ti"] mle by simp
  show ?case
  proof (cases "ti \<le> 0")
    case True
    with Cons.prems have "ti = 0" by simp
    with m0 mle have "bound_min w ti = 0" by simp
    with step \<open>ti = 0\<close> show ?thesis by (simp add: bracket_walk_stop b)
  next
    case False
    with step w b show ?thesis by simp
  qed
qed

lemma bracket_walk_ge:
  "ascending l bs \<Longrightarrow> list_all (\<lambda>b. 0 \<le> snd b) bs \<Longrightarrow>
   \<exists>a. bracket_walk ti tax l bs = Some a \<and> tax \<le> a"
proof (induction bs arbitrary: ti tax l)
  case Nil
  then show ?case by simp
next
  case (Cons b bs)
  obtain u r where b: "b = (u, r)" by (cases b)
  from Cons.prems b obtain x where l: "l = Fin x" and le: "bound_le l u" and asc: "ascending u bs"
    and r: "0 \<le> r" and rs: "list_all (\<lambda>b. 0 \<le> snd b) bs"
    by (cases l) auto
  show ?case
  proof (cases "ti \<le> 0")
    case True
    then show ?thesis by (simp add: b)
  next
    case False
    obtain w where w: "bound_sub u l = Some w" and m0: "0 \<le> bound_min w ti"
      using l le False by (cases u) auto
    from Cons.IH [OF asc rs, of "ti - bound_min w ti" "tax + bound_min w ti * r"]
    obtain a where a: "bracket_walk (ti - bound_min w ti) (tax + bound_min w ti * r) u bs = Some a"
      and ge: "tax + bound_min w ti * r \<le> a" by blast
    from m0 r have "0 \<le> bound_min w ti * r" by simp
    with ge have "tax \<le> a" by linarith
    with a False w b show ?thesis by simp
  qed
qed

lemma bound_min_mono: "t \<le> t' \<Longrightarrow> bound_min w t \<le> bound_min w t'"
  by (cases w) auto

lemma bound_min_rest_mono: "t \<le> t' \<Longrightarrow> t - bound_min w t \<le> t' - bound_min w t'"
  by (cases w) auto

lemma bracket_walk_mono:
  "ascending l bs \<Longrightarrow> list_all (\<lambda>b. 0 \<le> snd b) bs \<Longrightarrow> ti \<le> ti' \<Longrightarrow> tax \<le> tax' \<Longrightarrow>
   \<exists>a a'. bracket_walk ti tax l bs = Some a \<and> bracket_walk ti' tax' l bs = Some a' \<and> a \<le> a'"
proof (induction bs arbitrary: ti ti' tax tax' l)
  case Nil
  then show ?case by simp
next
  case (Cons b bs)
  obtain u r where b: "b = (u, r)" by (cases b)
  from Cons.prems b obtain x where l: "l = Fin x" and le: "bound_le l u" and asc: "ascending u bs"
    and r: "0 \<le> r" and rs: "list_all (\<lambda>b. 0 \<le> snd b) bs"
    by (cases l) auto
  obtain w where w: "bound_sub u l = Some w"
    using l by (cases u) auto
  show ?case
  proof (cases "ti \<le> 0")
    case True
    from bracket_walk_ge [OF Cons.prems(1,2), of ti' tax']
    obtain a' where a': "bracket_walk ti' tax' l (b # bs) = Some a'" and "tax' \<le> a'" by blast
    with Cons.prems(4) have "tax \<le> a'" by linarith
    with True a' b show ?thesis by simp
  next
    case False
    with Cons.prems(3) have pos': "\<not> ti' \<le> 0" by linarith
    have "bound_min w ti * r \<le> bound_min w ti' * r"
      using bound_min_mono [OF Cons.prems(3)] r by (simp add: mult_right_mono)
    with Cons.prems(4) have t: "tax + bound_min w ti * r \<le> tax' + bound_min w ti' * r" by linarith
    from Cons.IH [OF asc rs bound_min_rest_mono [OF Cons.prems(3)] t]
    show ?thesis using False pos' w b by simp
  qed
qed

lemma schedule_ascending:
  assumes "strictly_increasing (map fst bs)" and "ends_at_infinity (map fst bs)"
    and "bound_le (Fin 0) (fst (hd bs))"
  shows "ascending (Fin 0) bs"
proof -
  from assms(2) have "bs \<noteq> []" by (auto simp: ends_at_infinity_def)
  with assms(1,3) show ?thesis by (intro ascending_strictly_increasing) simp_all
qed

subsection \<open>Income below the standard deduction\<close>

text \<open>
  C5 (as stated, refuted). \<open>compute_federal_tax(0, schedule) = 0\<close> does not hold for every
  schedule: with a negative standard deduction the income taxed is \<open>0 - (-10) = 10\<close>.
\<close>

theorem compute_federal_tax_zero_counterexample:
  "compute_federal_tax 0
     \<lparr>year = 2024, standard_deduction_mfj = - 10, brackets_mfj = [(PInf, 1 / 10)]\<rparr> = Some 1"
  by (simp add: compute_federal_tax_def)

text \<open>
  C5 (amended). For every schedule and every taxable income less than or equal to the
  schedule's standard deduction, \<open>compute_federal_tax\<close> returns exactly 0; in particular
  \<open>compute_federal_tax(0, schedule) = 0\<close> for every schedule whose standard deduction is
  not negative.
\<close>

theorem compute_federal_tax_below_deduction:
  "(taxable_income \<le> standard_deduction_mfj profile \<longrightarrow>
      compute_federal_tax taxable_income profile = Some 0) \<and>
   (0 \<le> standard_deduction_mfj profile \<longrightarrow> compute_federal_tax 0 profile = Some 0)"
  by (simp add: compute_federal_tax_def bracket_walk_stop)

theorem compute_federal_tax_below_deduction_witness:
  "(29200::real) \<le> standard_deduction_mfj profile_2024 \<and>
   compute_federal_tax 29200 profile_2024 = Some 0 \<and>
   (0::real) \<le> standard_deduction_mfj profile_2024 \<and>
   compute_federal_tax 0 profile_2024 = Some 0"
  using compute_federal_tax_below_deduction [of 29200 profile_2024]
  by (simp add: profile_2024_def)

subsection \<open>Monotonicity\<close>

text \<open>
  C4 (as stated, refuted). Strictly increasing upper bounds ending at infinity do not make
  the tax non-decreasing. With a negative rate the tax falls as the income rises (from 0 at
  income 0 to -1 at income 10); with a negative first upper bound the first slice is
  negative, and with rates 1/2 and 1/10 the tax falls from 0 at income 0 to -19/10 at
  income 1.
\<close>

theorem compute_federal_tax_monotone_counterexample:
  "strictly_increasing (map fst [(PInf, - (1 / 10) :: real)]) \<and>
   ends_at_infinity (map fst [(PInf, - (1 / 10) :: real)]) \<and>
   compute_federal_tax 0
     \<lparr>year = 2024, standard_deduction_mfj = 0, brackets_mfj = [(PInf, - (1 / 10))]\<rparr> = Some 0 \<and>
   compute_federal_tax 10
     \<lparr>year = 2024, standard_deduction_mfj = 0, brackets_mfj = [(PInf, - (1 / 10))]\<rparr>
     = Some (- 1) \<and>
   strictly_increasing (map fst [(Fin (- 5), 1 / 2 :: real), (PInf, 1 / 10)]) \<and>
   ends_at_infinity (map fst [(Fin (- 5), 1 / 2 :: real), (PInf, 1 / 10)]) \<and>
   compute_federal_tax 0
     \<lparr>year = 2024, standard_deduction_mfj = 0,
      brackets_mfj = [(Fin (- 5), 1 / 2), (PInf, 1 / 10)]\<rparr> = Some 0 \<and>
   compute_federal_tax 1
     \<lparr>year = 2024, standard_deduction_mfj = 0,
      brackets_mfj = [(Fin (- 5), 1 / 2), (PInf, 1 / 10)]\<rparr> = Some (- (19 / 10))"
  by (simp add: compute_federal_tax_def ends_at_infinity_def)

text \<open>
  C4 (amended). For every bracket schedule with strictly increasing upper bounds ending at
  infinity, whose first upper bound is not negative and whose rates are not negative,
  \<open>compute_federal_tax\<close> is non-decreasing in the taxable income: for all \<open>t1 \<le> t2\<close>,
  \<open>compute_federal_tax(t1, schedule) \<le> compute_federal_tax(t2, schedule)\<close>.
\<close>

theorem compute_federal_tax_monotone:
  assumes "strictly_increasing (map fst (brackets_mfj profile))"
    and "ends_at_infinity (map fst (brackets_mfj profile))"
    and "bound_le (Fin 0) (fst (hd (brackets_mfj profile)))"
    and "list_all (\<lambda>b. 0 \<le> snd b) (brackets_mfj profile)"
    and "t1 \<le> t2"
  shows "\<exists>tax1 tax2. compute_federal_tax t1 profile = Some tax1 \<and>
           compute_federal_tax t2 profile = Some tax2 \<and> tax1 \<le> tax2"
proof -
  have asc: "ascending (Fin 0) (brackets_mfj profile)"
    using assms(1-3) by (rule schedule_ascending)
  from assms(5) have "max 0 (t1 - standard_deduction_mfj profile)
      \<le> max 0 (t2 - standard_deduction_mfj profile)" by simp
  from bracket_walk_mono [OF asc assms(4) this, of 0 0] show ?thesis
    by (simp add: compute_federal_tax_def)
qed

text \<open>The 2024 schedule meets the hypotheses; the incomes are those of C1.\<close>

theorem compute_federal_tax_monotone_witness:
  "strictly_increasing (map fst (brackets_mfj profile_2024)) \<and>
   ends_at_infinity (map fst (brackets_mfj profile_2024)) \<and>
   bound_le (Fin 0) (fst (hd (brackets_mfj profile_2024))) \<and>
   list_all (\<lambda>b. 0 \<le> snd b) (brackets_mfj profile_2024) \<and>
   (100000 :: real) \<le> 129200 \<and>
   compute_federal_tax 100000 profile_2024 = Some 8056 \<and>
   compute_federal_tax 129200 profile_2024 = Some 12615 \<and>
   (8056 :: real) \<le> 12615"
proof -
  have h: "strictly_increasing (map fst (brackets_mfj profile_2024))"
    "ends_at_infinity (map fst (brackets_mfj profile_2024))"
    "bound_le (Fin 0) (fst (hd (brackets_mfj profile_2024)))"
    "list_all (\<lambda>b. 0 \<le> snd b) (brackets_mfj profile_2024)"
    "(100000 :: real) \<le> 129200"
    by (simp_all add: profile_2024_def ends_at_infinity_def)
  have v: "compute_federal_tax 100000 profile_2024 = Some 8056"
    "compute_federal_tax 129200 profile_2024 = Some 12615"
    by (simp_all add: compute_federal_tax_def profile_2024_def)
  from compute_federal_tax_monotone [OF h] h v show ?thesis by simp
qed

subsection \<open>The early exit\<close>

text \<open>
  C8 (as stated, refuted). With a negative first upper bound (the bounds are still strictly
  increasing and end at infinity) the loop without the early exit differs: at a taxable
  income of 0 the implemented loop leaves at once with tax 0, the loop without the exit
  taxes the slice \<open>min(-5, 0) = -5\<close> at 1/2 and the 5 then left at 1/10, and returns -2.
\<close>

theorem compute_federal_tax_no_break_counterexample:
  "strictly_increasing (map fst [(Fin (- 5), 1 / 2 :: real), (PInf, 1 / 10)]) \<and>
   ends_at_infinity (map fst [(Fin (- 5), 1 / 2 :: real), (PInf, 1 / 10)]) \<and>
   compute_federal_tax 0
     \<lparr>year = 2024, standard_deduction_mfj = 0,
      brackets_mfj = [(Fin (- 5), 1 / 2), (PInf, 1 / 10)]\<rparr> = Some 0 \<and>
   compute_federal_tax_no_break 0
     \<lparr>year = 2024, standard_deduction_mfj = 0,
      brackets_mfj = [(Fin (- 5), 1 / 2), (PInf, 1 / 10)]\<rparr> = Some (- 2)"
  by (simp add: compute_federal_tax_def compute_federal_tax_no_break_def ends_at_infinity_def)

text \<open>
  C8 (amended). For every taxable income and every bracket schedule with strictly
  increasing upper bounds ending at infinity whose first upper bound is not negative,
  \<open>compute_federal_tax\<close> with the early exit removed returns the same tax as the
  implemented version (and both return a tax).
\<close>

theorem compute_federal_tax_no_break_eq:
  assumes "strictly_increasing (map fst (brackets_mfj profile))"
    and "ends_at_infinity (map fst (brackets_mfj profile))"
    and "bound_le (Fin 0) (fst (hd (brackets_mfj profile)))"
  shows "compute_federal_tax_no_break taxable_income profile
           = compute_federal_tax taxable_income profile \<and>
         (\<exists>tax. compute_federal_tax taxable_income profile = Some tax)"
proof -
  have "ascending (Fin 0) (brackets_mfj profile)"
    using assms by (rule schedule_ascending)
  then have "compute_federal_tax_no_break taxable_income profile
      = compute_federal_tax taxable_income profile"
    unfolding compute_federal_tax_no_break_def compute_federal_tax_def
    by (rule bracket_walk_no_break_eq) simp
  with compute_federal_tax_total show ?thesis by simp
qed

theorem compute_federal_tax_no_break_eq_witness:
  "strictly_increasing (map fst (brackets_mfj profile_2024)) \<and>
   ends_at_infinity (map fst (brackets_mfj profile_2024)) \<and>
   bound_le (Fin 0) (fst (hd (brackets_mfj profile_2024))) \<and>
   compute_federal_tax_no_break 129200 profile_2024 = compute_federal_tax 129200 profile_2024 \<and>
   compute_federal_tax 129200 profile_2024 = Some 12615"
proof -
  have h: "strictly_increasing (map fst (brackets_mfj profile_2024))"
    "ends_at_infinity (map fst (brackets_mfj profile_2024))"
    "bound_le (Fin 0) (fst (hd (brackets_mfj profile_2024)))"
    by (simp_all add: profile_2024_def ends_at_infinity_def)
  have "compute_federal_tax 129200 profile_2024 = Some 12615"
    by (simp add: compute_federal_tax_def profile_2024_def)
  with compute_federal_tax_no_break_eq [OF h, of 129200] h show ?thesis by simp
qed

subsection \<open>compute\_results: the loop and its body\<close>

lemma compute_results_loop_Inr:
  "compute_results_loop tbs tt tx acc inputs = Inr res \<Longrightarrow>
   \<exists>rs. res = acc @ rs \<and> list_all2 (\<lambda>e r. entry_result tbs tt tx e = Inr r) inputs rs"
proof (induction inputs arbitrary: acc)
  case Nil
  then show ?case by simp
next
  case (Cons e es)
  then obtain r where r: "entry_result tbs tt tx e = Inr r"
    and rest: "compute_results_loop tbs tt tx (acc @ [r]) es = Inr res"
    by (auto split: sum.splits)
  from Cons.IH [OF rest] obtain rs where "res = (acc @ [r]) @ rs"
    and "list_all2 (\<lambda>e r. entry_result tbs tt tx e = Inr r) es rs" by blast
  with r show ?case by (intro exI [of _ "r # rs"]) simp
qed

lemma entry_result_remaining:
  "entry_result tbs tt tx e = Inr r \<Longrightarrow>
   \<exists>ppy. FREQUENCY_PERIODS (pay_frequency e) = Some ppy \<and>
     remaining_periods r = max 0 (ppy - ytd_pay_periods e) \<and>
     (remaining_periods r = 0 \<longrightarrow> target_withholding_per_period r = 0)"
  unfolding entry_result_def Let_def
  by (auto split: option.splits sum.splits if_splits simp: py_div_def)

lemma compute_taxable_income_pair:
  assumes "entry_taxable_income a = Inr ta" and "entry_taxable_income b = Inr tb"
  shows "compute_taxable_income [a, b]
    = Inr (if spouse a = spouse b then [(spouse b, tb)] else [(spouse a, ta), (spouse b, tb)])"
  using assms by (simp add: compute_taxable_income_def)


lemma entry_result_share:
  assumes "entry_taxable_income e = Inr t" and "map_of tbs (spouse e) = Some st"
  shows "\<exists>r. entry_result tbs tt tx e = Inr r \<and>
           total_tax_share r = tx * (if 0 < tt then st / tt else 0) \<and>
           annualized_taxable_income r = st \<and> result_spouse r = spouse e"
  using assms unfolding entry_result_def entry_taxable_income_def Let_def
  by (auto split: option.splits sum.splits simp: py_div_def)

lemma compute_results_pair:
  assumes "compute_taxable_income [a, b] = Inr taxable"
    and "compute_federal_tax (py_sum (map snd taxable)) profile = Some tax"
    and "entry_result taxable (py_sum (map snd taxable)) tax a = Inr ra"
    and "entry_result taxable (py_sum (map snd taxable)) tax b = Inr rb"
  shows "compute_results [a, b] profile = Inr [ra, rb]"
  using assms by (simp add: compute_results_def Let_def)

lemmas ex_defs = paystub_a_def paystub_b_def paystub_same_name_def paystub_idle_def
  compute_taxable_income_def entry_taxable_income_def FREQUENCY_PERIODS_def
  annualize_def py_div_def compute_results_def entry_result_def compute_federal_tax_def
  profile_2024_def py_sum_def Let_def

subsection \<open>Remaining periods\<close>

text \<open>
  C7. For every input record, the \<open>remaining_periods\<close> field of the corresponding
  result equals \<open>max(0, periods_per_year - ytd_pay_periods)\<close>, hence is never negative,
  even when \<open>ytd_pay_periods\<close> exceeds \<open>periods_per_year\<close>; and whenever
  \<open>remaining_periods\<close> is zero, \<open>target_withholding_per_period\<close> is exactly zero. The
  results are in the order of the inputs, one for each.
\<close>

theorem remaining_periods_floor:
  assumes "compute_results inputs profile = Inr results"
  shows "length results = length inputs \<and>
    (\<forall>i < length inputs.
       \<exists>periods_per_year.
         FREQUENCY_PERIODS (pay_frequency (inputs ! i)) = Some periods_per_year \<and>
         remaining_periods (results ! i)
           = max 0 (periods_per_year - ytd_pay_periods (inputs ! i)) \<and>
         0 \<le> remaining_periods (results ! i) \<and>
         (remaining_periods (results ! i) = 0 \<longrightarrow>
            target_withholding_per_period (results ! i) = 0))"
proof -
  from assms obtain tbs tt tx where "compute_results_loop tbs tt tx [] inputs = Inr results"
    by (auto simp: compute_results_def Let_def split: sum.splits option.splits)
  from compute_results_loop_Inr [OF this]
  have all: "list_all2 (\<lambda>e r. entry_result tbs tt tx e = Inr r) inputs results" by simp
  then have len: "length results = length inputs" by (simp add: list_all2_lengthD)
  {
    fix i assume "i < length inputs"
    from entry_result_remaining [OF list_all2_nthD [OF all this]]
    have "\<exists>periods_per_year.
         FREQUENCY_PERIODS (pay_frequency (inputs ! i)) = Some periods_per_year \<and>
         remaining_periods (results ! i)
           = max 0 (periods_per_year - ytd_pay_periods (inputs ! i)) \<and>
         0 \<le> remaining_periods (results ! i) \<and>
         (remaining_periods (results ! i) = 0 \<longrightarrow>
            target_withholding_per_period (results ! i) = 0)"
      by auto
  }
  with len show ?thesis by blast
qed

text \<open>
  A weekly record with 60 periods paid, more than the 52 of a year (remaining periods 0,
  target 0), beside a monthly one with 4 periods paid (8 remaining).
\<close>

theorem remaining_periods_floor_witness:
  "compute_results [paystub_a, paystub_b] profile_2024
     = Inr [\<lparr>result_spouse = ''spouse_a'', annualized_taxable_income = 52000,
              annualized_gross = 52000, annualized_pretax = 0,
              total_tax_share = 252083 / 40, target_withholding_per_period = 0,
              target_withholding_rate = 0, remaining_periods = 0\<rparr>,
            \<lparr>result_spouse = ''spouse_b'', annualized_taxable_income = 108000,
              annualized_gross = 120000, annualized_pretax = 12000,
              total_tax_share = 523557 / 40,
              target_withholding_per_period = 323557 / 320,
              target_withholding_rate = 323557 / 3200000,
              remaining_periods = 8\<rparr>] \<and>
   FREQUENCY_PERIODS (pay_frequency paystub_a) = Some 52 \<and>
   ytd_pay_periods paystub_a = 60 \<and>
   max 0 (52 - ytd_pay_periods paystub_a) = 0 \<and>
   FREQUENCY_PERIODS (pay_frequency paystub_b) = Some 12 \<and>
   max 0 (12 - ytd_pay_periods paystub_b) = 8"
proof -
  have h: "compute_results [paystub_a, paystub_b] profile_2024
     = Inr [\<lparr>result_spouse = ''spouse_a'', annualized_taxable_income = 52000,
              annualized_gross = 52000, annualized_pretax = 0,
              total_tax_share = 252083 / 40, target_withholding_per_period = 0,
              target_withholding_rate = 0, remaining_periods = 0\<rparr>,
            \<lparr>result_spouse = ''spouse_b'', annualized_taxable_income = 108000,
              annualized_gross = 120000, annualized_pretax = 12000,
              total_tax_share = 523557 / 40,
              target_withholding_per_period = 323557 / 320,
              target_withholding_rate = 323557 / 3200000,
              remaining_periods = 8\<rparr>]"
    by (simp add: ex_defs)
  from remaining_periods_floor [OF h] h show ?thesis
    by (simp add: paystub_a_def paystub_b_def FREQUENCY_PERIODS_def)
qed

subsection \<open>Apportionment\<close>




text \<open>
  C6. When both input records have zero annualized taxable income (the joint taxable
  income is exactly zero), \<open>compute_results\<close> returns its two results, so no division by
  zero (nor any other exception) occurs, and each spouse's apportioned tax liability
  (\<open>total_tax_share\<close>) is exactly zero.
\<close>

theorem zero_joint_income:
  assumes "entry_taxable_income a = Inr 0" and "entry_taxable_income b = Inr 0"
  shows "\<exists>taxable ra rb.
           compute_taxable_income [a, b] = Inr taxable \<and>
           py_sum (map snd taxable) = 0 \<and>
           compute_results [a, b] profile = Inr [ra, rb] \<and>
           compute_results [a, b] profile \<noteq> Inl ZeroDivisionError \<and>
           total_tax_share ra = 0 \<and> total_tax_share rb = 0"
proof -
  define taxable where
    "taxable = (if spouse a = spouse b then [(spouse b, 0 :: real)]
                else [(spouse a, 0), (spouse b, 0)])"
  have ct: "compute_taxable_income [a, b] = Inr taxable"
    using compute_taxable_income_pair [OF assms] by (simp add: taxable_def)
  have total: "py_sum (map snd taxable) = 0" by (simp add: taxable_def py_sum_def)
  obtain tax where tax: "compute_federal_tax (py_sum (map snd taxable)) profile = Some tax"
    using compute_federal_tax_total by blast
  have "map_of taxable (spouse a) = Some 0" "map_of taxable (spouse b) = Some 0"
    by (simp_all add: taxable_def)
  with entry_result_share [OF assms(1), of taxable 0 "py_sum (map snd taxable)" tax]
    entry_result_share [OF assms(2), of taxable 0 "py_sum (map snd taxable)" tax]
  obtain ra rb where ra: "entry_result taxable (py_sum (map snd taxable)) tax a = Inr ra"
    and sa: "total_tax_share ra = 0"
    and rb: "entry_result taxable (py_sum (map snd taxable)) tax b = Inr rb"
    and sb: "total_tax_share rb = 0"
    by (auto simp: total)
  have "compute_results [a, b] profile = Inr [ra, rb]"
    using ct tax ra rb by (rule compute_results_pair)
  with ct total sa sb show ?thesis by simp
qed

theorem zero_joint_income_witness:
  "entry_taxable_income (paystub_idle ''spouse_a'') = Inr 0 \<and>
   entry_taxable_income (paystub_idle ''spouse_b'') = Inr 0 \<and>
   compute_taxable_income [paystub_idle ''spouse_a'', paystub_idle ''spouse_b'']
     = Inr [(''spouse_a'', 0), (''spouse_b'', 0)] \<and>
   compute_results [paystub_idle ''spouse_a'', paystub_idle ''spouse_b''] profile_2024
     \<noteq> Inl ZeroDivisionError \<and>
   map_sum id (map total_tax_share)
       (compute_results [paystub_idle ''spouse_a'', paystub_idle ''spouse_b''] profile_2024)
     = Inr [0, 0]"
proof -
  have h: "entry_taxable_income (paystub_idle ''spouse_a'') = Inr 0"
    "entry_taxable_income (paystub_idle ''spouse_b'') = Inr 0"
    by (simp_all add: ex_defs)
  have c: "compute_taxable_income [paystub_idle ''spouse_a'', paystub_idle ''spouse_b'']
     = Inr [(''spouse_a'', 0), (''spouse_b'', 0)]"
    by (simp add: ex_defs)
  from zero_joint_income [OF h, of profile_2024] h c show ?thesis by auto
qed

subsection \<open>Two records with one spouse identifier\<close>

text \<open>
  C9. When the two input records carry the same spouse identifier,
  \<open>compute_taxable_income\<close> keys its result by that single identifier: the dictionary has
  one entry, the second record's taxable income (the first is overwritten). The joint
  taxable income summed in \<open>compute_results\<close> is that value alone, the joint tax is
  computed on it, and both results are computed from it: each reports it as its
  annualized taxable income, and each share is the whole joint tax (or zero when the value
  is zero).
\<close>

theorem duplicate_spouse_overwrites:
  assumes "spouse a = spouse b"
    and "entry_taxable_income a = Inr ta" and "entry_taxable_income b = Inr tb"
  shows "\<exists>tax ra rb.
           compute_taxable_income [a, b] = Inr [(spouse b, tb)] \<and>
           py_sum (map snd [(spouse b, tb)]) = tb \<and>
           compute_federal_tax tb profile = Some tax \<and>
           compute_results [a, b] profile
             = compute_results_loop [(spouse b, tb)] tb tax [] [a, b] \<and>
           compute_results [a, b] profile = Inr [ra, rb] \<and>
           annualized_taxable_income ra = tb \<and> annualized_taxable_income rb = tb \<and>
           total_tax_share ra = tax * (if 0 < tb then tb / tb else 0) \<and>
           total_tax_share rb = tax * (if 0 < tb then tb / tb else 0)"
proof -
  have ct: "compute_taxable_income [a, b] = Inr [(spouse b, tb)]"
    using compute_taxable_income_pair [OF assms(2,3)] assms(1) by simp
  have total: "py_sum (map snd [(spouse b, tb)]) = tb" by (simp add: py_sum_def)
  obtain tax where tax: "compute_federal_tax tb profile = Some tax"
    using compute_federal_tax_total by blast
  have loop: "compute_results [a, b] profile
      = compute_results_loop [(spouse b, tb)] tb tax [] [a, b]"
    using total tax by (simp add: compute_results_def ct Let_def del: compute_results_loop.simps)
  from entry_result_share [OF assms(2), of "[(spouse b, tb)]" tb tb tax]
    entry_result_share [OF assms(3), of "[(spouse b, tb)]" tb tb tax] assms(1)
  obtain ra rb where ra: "entry_result [(spouse b, tb)] tb tax a = Inr ra"
    and sa: "total_tax_share ra = tax * (if 0 < tb then tb / tb else 0)"
      "annualized_taxable_income ra = tb"
    and rb: "entry_result [(spouse b, tb)] tb tax b = Inr rb"
    and sb: "total_tax_share rb = tax * (if 0 < tb then tb / tb else 0)"
      "annualized_taxable_income rb = tb"
    by auto
  have "compute_results [a, b] profile = Inr [ra, rb]"
    by (simp add: loop ra rb)
  with ct total tax loop sa sb show ?thesis by blast
qed

text \<open>
  Annualized incomes 52,000 and 60,000 under one identifier: the tax is computed on 60,000
  (3,256), not on 112,000 (9,496).
\<close>

theorem duplicate_spouse_overwrites_witness:
  "spouse paystub_a = spouse paystub_same_name \<and>
   entry_taxable_income paystub_a = Inr 52000 \<and>
   entry_taxable_income paystub_same_name = Inr 60000 \<and>
   compute_taxable_income [paystub_a, paystub_same_name] = Inr [(''spouse_a'', 60000)] \<and>
   compute_federal_tax 60000 profile_2024 = Some 3256 \<and>
   compute_federal_tax (52000 + 60000) profile_2024 = Some 9496 \<and>
   map_sum id (map annualized_taxable_income)
       (compute_results [paystub_a, paystub_same_name] profile_2024)
     = Inr [60000, 60000] \<and>
   map_sum id (map total_tax_share)
       (compute_results [paystub_a, paystub_same_name] profile_2024)
     = Inr [3256, 3256]"
proof -
  have h: "spouse paystub_a = spouse paystub_same_name"
    "entry_taxable_income paystub_a = Inr 52000"
    "entry_taxable_income paystub_same_name = Inr 60000"
    by (simp_all add: ex_defs)
  have t: "compute_federal_tax 60000 profile_2024 = Some 3256"
    "compute_federal_tax (52000 + 60000) profile_2024 = Some 9496"
    by (simp_all add: ex_defs)
  from duplicate_spouse_overwrites [OF h, of profile_2024]
  obtain tax ra rb where c: "compute_taxable_income [paystub_a, paystub_same_name]
        = Inr [(spouse paystub_same_name, 60000)]"
    and tax: "compute_federal_tax 60000 profile_2024 = Some tax"
    and r: "compute_results [paystub_a, paystub_same_name] profile_2024 = Inr [ra, rb]"
    and i: "annualized_taxable_income ra = 60000" "annualized_taxable_income rb = 60000"
    and s: "total_tax_share ra = tax * (if (0::real) < 60000 then 60000 / 60000 else 0)"
      "total_tax_share rb = tax * (if (0::real) < 60000 then 60000 / 60000 else 0)"
    by blast
  from tax t have "tax = 3256" by simp
  with s have "total_tax_share ra = 3256" "total_tax_share rb = 3256" by simp_all
  with h t c r i show ?thesis by (simp add: paystub_same_name_def)
qed

subsection \<open>Rows with a blank spouse\<close>

lemma str_strip_empty_iff: "str_strip s = [] \<longleftrightarrow> list_all isspace s"
proof
  assume "list_all isspace s"
  then have "\<forall>c \<in> set s. isspace c" by (simp add: list_all_iff)
  then have d: "dropWhile isspace s = []" by (rule iffD2 [OF dropWhile_eq_Nil_conv])
  show "str_strip s = []" unfolding str_strip_def d by simp
next
  assume "str_strip s = []"
  then have e: "dropWhile isspace (rev (dropWhile isspace s)) = []"
    unfolding str_strip_def by (simp del: dropWhile_eq_Nil_conv)
  have "dropWhile isspace s = []"
  proof (rule ccontr)
    assume ne: "dropWhile isspace s \<noteq> []"
    then have "\<not> isspace (hd (dropWhile isspace s))" by (rule hd_dropWhile)
    moreover from ne have "hd (dropWhile isspace s) \<in> set (rev (dropWhile isspace s))" by simp
    moreover from e have "\<forall>c \<in> set (rev (dropWhile isspace s)). isspace c"
      by (rule iffD1 [OF dropWhile_eq_Nil_conv])
    ultimately show False by blast
  qed
  then have "\<forall>c \<in> set s. isspace c" by (rule iffD1 [OF dropWhile_eq_Nil_conv])
  then show "list_all isspace s" by (simp add: list_all_iff)
qed

lemma load_row_blank: "blank_spouse row \<Longrightarrow> load_row py_int py_float row = Inr None"
  by (auto simp: blank_spouse_def load_row_def str_strip_empty_iff split: option.splits)

lemma load_row_skip_iff: "load_row py_int py_float row = Inr None \<longleftrightarrow> blank_spouse row"
  by (auto simp: blank_spouse_def load_row_def str_strip_empty_iff split: option.splits sum.splits)

lemma load_rows_append:
  "load_rows py_int py_float inputs (rs1 @ rs2) =
     (case load_rows py_int py_float inputs rs1 of
        Inl e \<Rightarrow> Inl e
      | Inr inputs' \<Rightarrow> load_rows py_int py_float inputs' rs2)"
  by (induction rs1 arbitrary: inputs) (auto split: sum.splits option.splits)

lemma load_rows_skip:
  assumes "blank_spouse blank"
  shows "load_rows py_int py_float inputs (before @ blank # after)
    = load_rows py_int py_float inputs (before @ after)"
  using load_row_blank [OF assms]
  by (simp add: load_rows_append split: sum.splits)

lemma load_rows_length:
  "load_rows py_int py_float acc rs = Inr inputs \<Longrightarrow>
   length inputs = length acc + length (filter (\<lambda>r. \<not> blank_spouse r) rs)"
proof (induction rs arbitrary: acc)
  case Nil
  then show ?case by simp
next
  case (Cons r rs)
  show ?case
  proof (cases "load_row py_int py_float r")
    case (Inl e)
    with Cons.prems show ?thesis by simp
  next
    case (Inr x)
    show ?thesis
    proof (cases x)
      case None
      with Inr have "blank_spouse r" by (simp add: load_row_skip_iff)
      with Cons.IH [of acc] Cons.prems Inr None show ?thesis by simp
    next
      case (Some entry)
      with Inr have "\<not> blank_spouse r" using load_row_skip_iff [of py_int py_float r] by simp
      with Cons.IH [of "acc @ [entry]"] Cons.prems Inr Some show ?thesis by simp
    qed
  qed
qed

lemma load_inputs_rows:
  "set TEMPLATE_HEADERS \<subseteq> set names \<Longrightarrow>
   load_inputs py_int py_float \<lparr>fieldnames = Some names, rows = rs\<rparr>
     = (case load_rows py_int py_float [] rs of
          Inl e \<Rightarrow> Inl e
        | Inr inputs \<Rightarrow> if length inputs \<noteq> 2 then Inl RowCount else Inr inputs)"
  by (auto simp: load_inputs_def filter_empty_conv)

text \<open>
  C10. \<open>load_inputs\<close> silently skips every row whose spouse field is empty or
  whitespace-only: the row raises no error, whatever its other cells hold, and the result is
  that of the input without the row. The exactly-two-rows validation counts only the
  non-blank rows: a successful load has exactly two of them; an input of two data rows, one
  of them blank, fails the row-count check; an input of three data rows, one of them blank
  and the other two well-formed, passes it and returns the two entries.
\<close>

theorem load_inputs_blank_rows:
  assumes "blank_spouse blank"
  shows
    "load_row py_int py_float blank = Inr None \<and>
     load_inputs py_int py_float \<lparr>fieldnames = header, rows = before @ blank # after\<rparr>
       = load_inputs py_int py_float \<lparr>fieldnames = header, rows = before @ after\<rparr> \<and>
     (load_inputs py_int py_float \<lparr>fieldnames = header, rows = rs\<rparr> = Inr inputs \<longrightarrow>
        length inputs = 2 \<and> length (filter (\<lambda>r. \<not> blank_spouse r) rs) = 2) \<and>
     (set TEMPLATE_HEADERS \<subseteq> set names \<and> load_row py_int py_float r1 = Inr (Some e1) \<longrightarrow>
        load_inputs py_int py_float \<lparr>fieldnames = Some names, rows = [r1, blank]\<rparr>
          = Inl RowCount \<and>
        load_inputs py_int py_float \<lparr>fieldnames = Some names, rows = [blank, r1]\<rparr>
          = Inl RowCount) \<and>
     (set TEMPLATE_HEADERS \<subseteq> set names \<and> load_row py_int py_float r1 = Inr (Some e1) \<and>
      load_row py_int py_float r2 = Inr (Some e2) \<longrightarrow>
        load_inputs py_int py_float \<lparr>fieldnames = Some names, rows = [r1, blank, r2]\<rparr>
          = Inr [e1, e2] \<and>
        load_inputs py_int py_float \<lparr>fieldnames = Some names, rows = [blank, r1, r2]\<rparr>
          = Inr [e1, e2] \<and>
        load_inputs py_int py_float \<lparr>fieldnames = Some names, rows = [r1, r2, blank]\<rparr>
          = Inr [e1, e2])"
proof -
  note skip = load_row_blank [OF assms, of py_int py_float]
  have same: "load_inputs py_int py_float \<lparr>fieldnames = header, rows = before @ blank # after\<rparr>
       = load_inputs py_int py_float \<lparr>fieldnames = header, rows = before @ after\<rparr>"
    by (cases header) (simp_all add: load_inputs_def load_rows_skip [OF assms])
  have count: "length inputs = 2 \<and> length (filter (\<lambda>r. \<not> blank_spouse r) rs) = 2"
    if "load_inputs py_int py_float \<lparr>fieldnames = header, rows = rs\<rparr> = Inr inputs"
  proof -
    from that obtain loaded where l: "load_rows py_int py_float [] rs = Inr loaded"
      and i: "length loaded = 2" "inputs = loaded"
      by (auto simp: load_inputs_def split: option.splits if_splits sum.splits)
    from load_rows_length [OF l] i show ?thesis by simp
  qed
  have two: "load_inputs py_int py_float \<lparr>fieldnames = Some names, rows = [r1, blank]\<rparr>
          = Inl RowCount \<and>
        load_inputs py_int py_float \<lparr>fieldnames = Some names, rows = [blank, r1]\<rparr>
          = Inl RowCount"
    if "set TEMPLATE_HEADERS \<subseteq> set names" "load_row py_int py_float r1 = Inr (Some e1)"
    using that skip by (simp add: load_inputs_rows)
  have three: "load_inputs py_int py_float \<lparr>fieldnames = Some names, rows = [r1, blank, r2]\<rparr>
          = Inr [e1, e2] \<and>
        load_inputs py_int py_float \<lparr>fieldnames = Some names, rows = [blank, r1, r2]\<rparr>
          = Inr [e1, e2] \<and>
        load_inputs py_int py_float \<lparr>fieldnames = Some names, rows = [r1, r2, blank]\<rparr>
          = Inr [e1, e2]"
    if "set TEMPLATE_HEADERS \<subseteq> set names" "load_row py_int py_float r1 = Inr (Some e1)"
      "load_row py_int py_float r2 = Inr (Some e2)"
    using that skip by (simp add: load_inputs_rows)
  from skip same count two three show ?thesis by blast
qed

text \<open>
  The blank row of the example has the frequency "daily" and unparsable numbers, and is
  skipped all the same.
\<close>

theorem load_inputs_blank_rows_witness:
  "blank_spouse csv_row_blank \<and>
   csv_row_blank ''pay_frequency'' = Some ''daily'' \<and>
   load_row example_int example_float csv_row_blank = Inr None \<and>
   set TEMPLATE_HEADERS \<subseteq> set TEMPLATE_HEADERS \<and>
   load_row example_int example_float csv_row_a
     = Inr (Some \<lparr>spouse = ''spouse_a'', pay_frequency = ''biweekly'',
          ytd_pay_periods = 10, ytd_gross = 25000,
          ytd_pretax_deductions = 2000, ytd_posttax_deductions = 0,
          ytd_federal_withheld = 2000\<rparr>) \<and>
   load_row example_int example_float csv_row_b
     = Inr (Some \<lparr>spouse = ''spouse_b'', pay_frequency = ''monthly'',
          ytd_pay_periods = 4, ytd_gross = 40000, ytd_pretax_deductions = 0,
          ytd_posttax_deductions = 0, ytd_federal_withheld = 2000\<rparr>) \<and>
   load_inputs example_int example_float
       \<lparr>fieldnames = Some TEMPLATE_HEADERS, rows = [csv_row_a, csv_row_blank]\<rparr>
     = Inl RowCount \<and>
   load_inputs example_int example_float
       \<lparr>fieldnames = Some TEMPLATE_HEADERS, rows = [csv_row_a, csv_row_blank, csv_row_b]\<rparr>
     = Inr [\<lparr>spouse = ''spouse_a'', pay_frequency = ''biweekly'',
              ytd_pay_periods = 10, ytd_gross = 25000,
              ytd_pretax_deductions = 2000, ytd_posttax_deductions = 0,
              ytd_federal_withheld = 2000\<rparr>,
            \<lparr>spouse = ''spouse_b'', pay_frequency = ''monthly'',
              ytd_pay_periods = 4, ytd_gross = 40000, ytd_pretax_deductions = 0,
              ytd_posttax_deductions = 0, ytd_federal_withheld = 2000\<rparr>] \<and>
   length (filter (\<lambda>r. \<not> blank_spouse r) [csv_row_a, csv_row_blank, csv_row_b]) = 2"
proof -
  have b: "blank_spouse csv_row_blank"
    by (simp add: blank_spouse_def csv_row_blank_def isspace_def)
  have d: "csv_row_blank ''pay_frequency'' = Some ''daily''"
    by (simp add: csv_row_blank_def)
  have ra: "load_row example_int example_float csv_row_a
     = Inr (Some \<lparr>spouse = ''spouse_a'', pay_frequency = ''biweekly'',
          ytd_pay_periods = 10, ytd_gross = 25000,
          ytd_pretax_deductions = 2000, ytd_posttax_deductions = 0,
          ytd_federal_withheld = 2000\<rparr>)"
    by code_simp
  have rb: "load_row example_int example_float csv_row_b
     = Inr (Some \<lparr>spouse = ''spouse_b'', pay_frequency = ''monthly'',
          ytd_pay_periods = 4, ytd_gross = 40000, ytd_pretax_deductions = 0,
          ytd_posttax_deductions = 0, ytd_federal_withheld = 2000\<rparr>)"
    by code_simp
  note t = load_inputs_blank_rows [OF b, of example_int example_float "Some TEMPLATE_HEADERS"
      "[csv_row_a]" "[csv_row_b]" "[csv_row_a, csv_row_blank, csv_row_b]" _ TEMPLATE_HEADERS
      csv_row_a _ csv_row_b]
  from t have skip: "load_row example_int example_float csv_row_blank = Inr None" by blast
  from t ra have two: "load_inputs example_int example_float
       \<lparr>fieldnames = Some TEMPLATE_HEADERS, rows = [csv_row_a, csv_row_blank]\<rparr>
     = Inl RowCount" by blast
  from t ra rb have three: "load_inputs example_int example_float
       \<lparr>fieldnames = Some TEMPLATE_HEADERS, rows = [csv_row_a, csv_row_blank, csv_row_b]\<rparr>
     = Inr [\<lparr>spouse = ''spouse_a'', pay_frequency = ''biweekly'',
              ytd_pay_periods = 10, ytd_gross = 25000,
              ytd_pretax_deductions = 2000, ytd_posttax_deductions = 0,
              ytd_federal_withheld = 2000\<rparr>,
            \<lparr>spouse = ''spouse_b'', pay_frequency = ''monthly'',
              ytd_pay_periods = 4, ytd_gross = 40000, ytd_pretax_deductions = 0,
              ytd_posttax_deductions = 0, ytd_federal_withheld = 2000\<rparr>]" by blast
  from t three
  have "length (filter (\<lambda>r. \<not> blank_spouse r) [csv_row_a, csv_row_blank, csv_row_b]) = 2"
    by blast
  with b d skip ra rb two three show ?thesis by simp
qed

end
